theory Spec2Isabelle
  imports Main "HOL-Library.AList"
begin

section \<open>Python values and dictionaries\<close>

text \<open>
  The option values of \<^verbatim>\<open>seleniumwire/server.py\<close> are ordinary Python objects. The
  model keeps the kinds the code looks at: \<^verbatim>\<open>None\<close>, booleans, integers, strings, lists
  and dictionaries. A dictionary is an association list in insertion order, as Python
  keeps it.
\<close>

datatype pyval =
    PyNone
  | PyBool bool
  | PyInt int
  | PyStr string
  | PyList "pyval list"
  | PyDict "(string \<times> pyval) list"

type_synonym dict = "(string \<times> pyval) list"

text \<open>Python truthiness, as \<^verbatim>\<open>if x:\<close> decides it.\<close>

fun truthy :: "pyval \<Rightarrow> bool" where
  "truthy PyNone = False"
| "truthy (PyBool b) = b"
| "truthy (PyInt i) = (i \<noteq> 0)"
| "truthy (PyStr s) = (s \<noteq> [])"
| "truthy (PyList xs) = (xs \<noteq> [])"
| "truthy (PyDict d) = (d \<noteq> [])"

text \<open>\<^verbatim>\<open>d.get(k, default)\<close>; \<^verbatim>\<open>d.get(k)\<close> is \<^verbatim>\<open>d.get(k, None)\<close>.\<close>

definition dict_get :: "dict \<Rightarrow> string \<Rightarrow> pyval \<Rightarrow> pyval" where
  "dict_get d k dflt = (case map_of d k of None \<Rightarrow> dflt | Some v \<Rightarrow> v)"

text \<open>\<^verbatim>\<open>s.startswith(p)\<close>.\<close>

definition startswith :: "string \<Rightarrow> string \<Rightarrow> bool" where
  "startswith s p = (take (length p) s = p)"

text \<open>
  A string-or-\<^verbatim>\<open>None\<close> field of a parsed proxy URL: \<open>None\<close> is Python's \<^verbatim>\<open>None\<close>.
  \<open>fmt\<close> is what \<^verbatim>\<open>'{}'.format(x)\<close> prints for it, \<open>truthy_str\<close> its truthiness.
\<close>

fun fmt :: "string option \<Rightarrow> string" where
  "fmt None = ''None''"
| "fmt (Some s) = s"

fun truthy_str :: "string option \<Rightarrow> bool" where
  "truthy_str None = False"
| "truthy_str (Some s) = (s \<noteq> [])"

section \<open>Errors\<close>

text \<open>
  \<open>ValueError\<close> carries its message. \<open>TypeError\<close> is the one Python raises when a call
  receives the same keyword twice; it carries the keyword. \<open>Raised\<close> is any exception
  that comes out of a collaborator (storage, certificates, event loop, engine).
\<close>

datatype error = ValueError string | TypeError string | Raised string

section \<open>Upstream proxy resolution\<close>

text \<open>
  \<^verbatim>\<open>get_upstream_proxy\<close> (module \<^verbatim>\<open>seleniumwire.utils\<close>) returns a dictionary whose
  \<^verbatim>\<open>'http'\<close> and \<^verbatim>\<open>'https'\<close> entries, when present, are named tuples
  \<^verbatim>\<open>(scheme, username, password, hostport)\<close>, and which may hold
  \<^verbatim>\<open>'custom_authorization'\<close> and \<^verbatim>\<open>'no_proxy'\<close>. A four-element tuple is always
  truthy, so \<^verbatim>\<open>if http_proxy\<close> asks whether the entry is there.
\<close>

record proxy_conf =
  scheme :: "string option"
  username :: "string option"
  password :: "string option"
  hostport :: "string option"

record proxy_config =
  http :: "proxy_conf option"
  https :: "proxy_conf option"
  custom_authorization :: pyval
  no_proxy :: pyval

text \<open>Lines 94 to 107 of \<^verbatim>\<open>_get_upstream_proxy_args\<close>: the choice of \<^verbatim>\<open>conf\<close>.\<close>

definition resolve_conf :: "proxy_config \<Rightarrow> error + proxy_conf option" where
  "resolve_conf proxy_config =
     (let http_proxy = http proxy_config;
          https_proxy = https proxy_config
      in case (http_proxy, https_proxy) of
           (Some hp, Some sp) \<Rightarrow>
             if hostport hp \<noteq> hostport sp
             then Inl (ValueError ''Different settings for http and https proxy servers not supported'')
             else Inr https_proxy
         | (Some hp, None) \<Rightarrow> Inr http_proxy
         | (None, Some sp) \<Rightarrow> Inr https_proxy
         | (None, None) \<Rightarrow> Inr None)"

text \<open>Lines 109 to 129: the keyword arguments built from \<^verbatim>\<open>conf\<close>.\<close>

definition proxy_args :: "proxy_config \<Rightarrow> proxy_conf option \<Rightarrow> dict" where
  "proxy_args proxy_config conf =
     (case conf of
        None \<Rightarrow> []
      | Some c \<Rightarrow>
          (let args0 = AList.update ''mode''
                         (PyStr (''upstream:'' @ fmt (scheme c) @ ''://'' @ fmt (hostport c))) [];
               args1 = (if truthy_str (username c)
                        then AList.update ''upstream_auth''
                               (PyStr (fmt (username c) @ '':'' @ fmt (password c))) args0
                        else args0);
               custom_auth = custom_authorization proxy_config;
               args2 = (if truthy custom_auth
                        then AList.update ''upstream_custom_auth'' custom_auth args1
                        else args1);
               no_prox = no_proxy proxy_config;
               args3 = (if truthy no_prox
                        then AList.update ''no_proxy'' no_prox args2
                        else args2)
           in args3))"

text \<open>The body of \<^verbatim>\<open>_get_upstream_proxy_args\<close> after the call of \<^verbatim>\<open>get_upstream_proxy\<close>.\<close>

definition upstream_proxy_args :: "proxy_config \<Rightarrow> error + dict" where
  "upstream_proxy_args proxy_config =
     (case resolve_conf proxy_config of
        Inl e \<Rightarrow> Inl e
      | Inr conf \<Rightarrow> Inr (proxy_args proxy_config conf))"

section \<open>Collaborators and the trace of their calls\<close>

text \<open>
  Storage, certificate extraction, the event loop and the proxy engine live outside
  \<^verbatim>\<open>server.py\<close>. Each call the orchestrator makes on them is recorded, in order, in a
  trace. Whether a call raises, what home directory a new storage has, and what
  \<^verbatim>\<open>get_upstream_proxy\<close> returns are parameters of the model (\<open>env\<close>); whether a call
  raises may depend on the calls made before it.
\<close>

record storage_args =
  memory_only :: bool
  base_dir :: pyval
  maxsize :: pyval

record storage =
  home_dir :: string

datatype addon = DefaultAddonList | SendToLogger | InterceptRequestHandler

datatype callable = Callable nat

datatype call =
    StorageCreate storage_args
  | ExtractCertAndKey string
  | NewRequestModifier
  | NewEventLoop
  | SetEventLoop
  | NewOptions
  | NewMaster
  | DefaultAddons
  | NewInterceptRequestHandler
  | AddonsAdd addon
  | GetUpstreamProxy dict
  | OptionsUpdate dict
  | NewProxyConfig
  | NewProxyServer
  | RunLoop
  | MasterShutdown
  | StorageCleanup storage

type_synonym trace = "call list"

record env =
  raises :: "trace \<Rightarrow> call \<Rightarrow> error option"
  home_dir_of :: "storage_args \<Rightarrow> string"
  upstream_proxy :: "dict \<Rightarrow> proxy_config"

text \<open>
  A piece of the program takes the trace so far and returns its result (\<open>Inl\<close> an
  exception, \<open>Inr\<close> a value) with the extended trace. \<open>bindp\<close> is sequencing: an exception
  of the first part skips the second.
\<close>

type_synonym 'a prog = "trace \<Rightarrow> (error + 'a) \<times> trace"

definition returnp :: "'a \<Rightarrow> 'a prog" where
  "returnp x = (\<lambda>h. (Inr x, h))"

definition liftp :: "error + 'a \<Rightarrow> 'a prog" where
  "liftp r = (\<lambda>h. (r, h))"

definition bindp :: "'a prog \<Rightarrow> ('a \<Rightarrow> 'b prog) \<Rightarrow> 'b prog" where
  "bindp m f = (\<lambda>h. case m h of (Inl e, h') \<Rightarrow> (Inl e, h') | (Inr x, h') \<Rightarrow> f x h')"

text \<open>A call on a collaborator: it is recorded, and raises if the environment says so.\<close>

definition ext :: "env \<Rightarrow> call \<Rightarrow> unit prog" where
  "ext env c = (\<lambda>h. (case raises env h c of None \<Rightarrow> Inr () | Some e \<Rightarrow> Inl e, h @ [c]))"

section \<open>The orchestrator\<close>

definition DEFAULT_SSL_INSECURE :: pyval where
  "DEFAULT_SSL_INSECURE = PyBool True"

definition DEFAULT_STREAM_WEBSOCKETS :: pyval where
  "DEFAULT_STREAM_WEBSOCKETS = PyBool True"

definition DEFAULT_SUPPRESS_CONNECTION_ERRORS :: pyval where
  "DEFAULT_SUPPRESS_CONNECTION_ERRORS = PyBool True"

text \<open>
  The attributes of a \<^verbatim>\<open>MitmProxy\<close> that the code reads or writes. \<open>master_options\<close> is
  the keyword dictionary given to \<^verbatim>\<open>mitmproxy_opts.update\<close>, which the master keeps.
\<close>

record mitm_proxy =
  options :: dict
  storage :: storage
  scopes :: "string list"
  request_interceptor :: "callable option"
  response_interceptor :: "callable option"
  master_options :: dict

text \<open>\<^verbatim>\<open>_get_storage_args\<close>.\<close>

definition get_storage_args :: "dict \<Rightarrow> storage_args" where
  "get_storage_args opts =
     \<lparr> memory_only = (dict_get opts ''request_storage'' PyNone = PyStr ''memory''),
       base_dir = dict_get opts ''request_storage_base_dir'' PyNone,
       maxsize = dict_get opts ''request_storage_max_size'' PyNone \<rparr>"

text \<open>\<^verbatim>\<open>storage.create(**args)\<close>: the handle it returns has the home directory of \<open>env\<close>.\<close>

definition storage_create :: "env \<Rightarrow> storage_args \<Rightarrow> storage prog" where
  "storage_create env args =
     bindp (ext env (StorageCreate args)) (\<lambda>_. returnp \<lparr> home_dir = home_dir_of env args \<rparr>)"

text \<open>\<^verbatim>\<open>_get_upstream_proxy_args\<close>, with its call of \<^verbatim>\<open>get_upstream_proxy(self.options)\<close>.\<close>

definition get_upstream_proxy_args :: "env \<Rightarrow> dict \<Rightarrow> dict prog" where
  "get_upstream_proxy_args env opts =
     bindp (ext env (GetUpstreamProxy opts))
       (\<lambda>_. liftp (upstream_proxy_args (upstream_proxy env opts)))"

text \<open>
  The dictionary comprehension of line 59:
  \<^verbatim>\<open>{k[5:]: v for k, v in options.items() if k.startswith('mitm_')}\<close>.
\<close>

definition passthrough :: "dict \<Rightarrow> dict" where
  "passthrough opts =
     fold (\<lambda>(k, v) d. AList.update (drop 5 k) v d)
       (filter (\<lambda>(k, v). startswith k ''mitm_'') opts) []"

text \<open>
  Unpacking \<^verbatim>\<open>**rest\<close> into the keyword arguments of a call: Python raises
  \<^verbatim>\<open>TypeError\<close> (got multiple values for keyword argument) at the first key that is
  already there.
\<close>

fun kw_merge :: "dict \<Rightarrow> dict \<Rightarrow> error + dict" where
  "kw_merge kw [] = Inr kw"
| "kw_merge kw ((k, v) # rest) =
     (if k \<in> fst ` set kw then Inl (TypeError k) else kw_merge (kw @ [(k, v)]) rest)"

text \<open>
  The keyword arguments of \<^verbatim>\<open>mitmproxy_opts.update(...)\<close>, lines 50 to 60, evaluated left
  to right: the six written keywords, then \<^verbatim>\<open>**self._get_upstream_proxy_args()\<close>, then
  the pass-through comprehension.
\<close>

definition engine_kwargs :: "env \<Rightarrow> pyval \<Rightarrow> pyval \<Rightarrow> dict \<Rightarrow> storage \<Rightarrow> dict prog" where
  "engine_kwargs env host port opts st =
     (let kw = [(''confdir'', PyStr (home_dir st)),
                (''listen_host'', host),
                (''listen_port'', port),
                (''ssl_insecure'', dict_get opts ''verify_ssl'' DEFAULT_SSL_INSECURE),
                (''stream_websockets'', DEFAULT_STREAM_WEBSOCKETS),
                (''suppress_connection_errors'',
                   dict_get opts ''suppress_connection_errors'' DEFAULT_SUPPRESS_CONNECTION_ERRORS)]
      in bindp (get_upstream_proxy_args env opts) (\<lambda>upstream.
         bindp (liftp (kw_merge kw upstream)) (\<lambda>kw1.
         liftp (kw_merge kw1 (passthrough opts)))))"

text \<open>Lines 27 to 48 of \<^verbatim>\<open>__init__\<close>: storage, certificates, event loop, master, addons.\<close>

definition init_engine :: "env \<Rightarrow> dict \<Rightarrow> storage prog" where
  "init_engine env opts =
     bindp (storage_create env (get_storage_args opts)) (\<lambda>st.
     bindp (ext env (ExtractCertAndKey (home_dir st))) (\<lambda>_.
     bindp (ext env NewRequestModifier) (\<lambda>_.
     bindp (ext env NewEventLoop) (\<lambda>_.
     bindp (ext env SetEventLoop) (\<lambda>_.
     bindp (ext env NewOptions) (\<lambda>_.
     bindp (ext env NewMaster) (\<lambda>_.
     bindp (ext env DefaultAddons) (\<lambda>_.
     bindp (ext env (AddonsAdd DefaultAddonList)) (\<lambda>_.
     bindp (ext env (AddonsAdd SendToLogger)) (\<lambda>_.
     bindp (ext env NewInterceptRequestHandler) (\<lambda>_.
     bindp (ext env (AddonsAdd InterceptRequestHandler)) (\<lambda>_.
     returnp st))))))))))))"

text \<open>\<^verbatim>\<open>MitmProxy.__init__(self, host, port, options)\<close>.\<close>

definition init :: "env \<Rightarrow> pyval \<Rightarrow> pyval \<Rightarrow> dict \<Rightarrow> mitm_proxy prog" where
  "init env host port opts =
     bindp (init_engine env opts) (\<lambda>st.
     bindp (engine_kwargs env host port opts st) (\<lambda>kw.
     bindp (ext env (OptionsUpdate kw)) (\<lambda>_.
     bindp (ext env NewProxyConfig) (\<lambda>_.
     bindp (ext env NewProxyServer) (\<lambda>_.
     returnp \<lparr> options = opts,
               storage = st,
               scopes = (if truthy (dict_get opts ''disable_capture'' (PyBool False))
                         then [''$^''] else []),
               request_interceptor = None,
               response_interceptor = None,
               master_options = kw \<rparr>)))))"

text \<open>\<^verbatim>\<open>serve_forever\<close> and \<^verbatim>\<open>shutdown\<close>.\<close>

definition serve_forever :: "env \<Rightarrow> mitm_proxy \<Rightarrow> unit prog" where
  "serve_forever env self = bindp (ext env SetEventLoop) (\<lambda>_. ext env RunLoop)"

definition shutdown :: "env \<Rightarrow> mitm_proxy \<Rightarrow> unit prog" where
  "shutdown env self =
     bindp (ext env MasterShutdown) (\<lambda>_. ext env (StorageCleanup (storage self)))"

text \<open>Two calls of \<^verbatim>\<open>shutdown()\<close> in sequence.\<close>

definition shutdown_twice :: "env \<Rightarrow> mitm_proxy \<Rightarrow> unit prog" where
  "shutdown_twice env self = bindp (shutdown env self) (\<lambda>_. shutdown env self)"

section \<open>Observations on traces and engine options\<close>

text \<open>The number of times \<^verbatim>\<open>cleanup()\<close> was invoked on a storage handle.\<close>

fun is_cleanup :: "call \<Rightarrow> bool" where
  "is_cleanup (StorageCleanup s) = True"
| "is_cleanup _ = False"

definition cleanups :: "trace \<Rightarrow> nat" where
  "cleanups t = length (filter is_cleanup t)"

text \<open>
  Modelled from the spec: the engine's reading of its \<^verbatim>\<open>ssl_insecure\<close> option. The
  engine (\<^verbatim>\<open>seleniumwire.thirdparty.mitmproxy\<close>) is not part of \<^verbatim>\<open>server.py\<close>. The
  spec calls the default policy, under which the orchestrator sets \<^verbatim>\<open>ssl_insecure\<close> to
  \<^verbatim>\<open>True\<close>, "insecure/permissive" with verification "disabled": upstream certificates
  are verified exactly when \<^verbatim>\<open>ssl_insecure\<close> is not set to a true value.
\<close>

definition upstream_tls_verified :: "dict \<Rightarrow> bool" where
  "upstream_tls_verified conf = (\<not> truthy (dict_get conf ''ssl_insecure'' (PyBool False)))"

section \<open>Example environments and proxy configurations\<close>

text \<open>An environment in which no collaborator raises; \<^verbatim>\<open>get_upstream_proxy\<close> returns \<open>pc\<close>.\<close>

definition quiet_env :: "proxy_config \<Rightarrow> env" where
  "quiet_env pc =
     \<lparr> raises = (\<lambda>h c. None),
       home_dir_of = (\<lambda>a. ''/tmp/sw''),
       upstream_proxy = (\<lambda>opts. pc) \<rparr>"

text \<open>No upstream proxy at all.\<close>

definition no_proxy_config :: proxy_config where
  "no_proxy_config =
     \<lparr> http = None, https = None, custom_authorization = PyNone, no_proxy = PyNone \<rparr>"

text \<open>An environment in which certificate extraction raises.\<close>

definition cert_failure_env :: env where
  "cert_failure_env =
     \<lparr> raises = (\<lambda>h c. case c of ExtractCertAndKey d \<Rightarrow> Some (Raised ''OSError'') | _ \<Rightarrow> None),
       home_dir_of = (\<lambda>a. ''/tmp/sw''),
       upstream_proxy = (\<lambda>opts. no_proxy_config) \<rparr>"

text \<open>The spec's scenario of two upstream proxies on different ports.\<close>

definition conflict_config :: proxy_config where
  "conflict_config =
     \<lparr> http = Some \<lparr> scheme = Some ''http'', username = Some ''u'', password = Some ''p'',
                     hostport = Some ''proxy.local:8080'' \<rparr>,
       https = Some \<lparr> scheme = Some ''https'', username = Some ''u'', password = Some ''p'',
                      hostport = Some ''proxy.local:9090'' \<rparr>,
       custom_authorization = PyNone,
       no_proxy = PyNone \<rparr>"

text \<open>Two upstream proxies on the same host and port, with both extra fields set.\<close>

definition matching_config :: proxy_config where
  "matching_config =
     \<lparr> http = Some \<lparr> scheme = Some ''http'', username = Some ''bob'', password = Some ''pw'',
                     hostport = Some ''proxy.local:8080'' \<rparr>,
       https = Some \<lparr> scheme = Some ''https'', username = Some ''alice'',
                      password = Some ''s3cret'', hostport = Some ''proxy.local:8080'' \<rparr>,
       custom_authorization = PyStr ''Bearer abc'',
       no_proxy = PyList [PyStr ''localhost''] \<rparr>"

text \<open>Only an HTTP upstream proxy, whose URL has an empty user name and a password.\<close>

definition http_only_config :: proxy_config where
  "http_only_config =
     \<lparr> http = Some \<lparr> scheme = Some ''http'', username = Some '''', password = Some ''secret'',
                     hostport = Some ''proxy.local:3128'' \<rparr>,
       https = None,
       custom_authorization = PyNone,
       no_proxy = PyNone \<rparr>"

section \<open>Basic facts about sequencing and collaborator calls\<close>

lemmas eval_defs =
  init_def init_engine_def engine_kwargs_def get_upstream_proxy_args_def storage_create_def
  bindp_def returnp_def liftp_def ext_def upstream_proxy_args_def resolve_conf_def proxy_args_def
  passthrough_def startswith_def dict_get_def get_storage_args_def
  DEFAULT_SSL_INSECURE_def DEFAULT_STREAM_WEBSOCKETS_def DEFAULT_SUPPRESS_CONNECTION_ERRORS_def
  quiet_env_def no_proxy_config_def conflict_config_def

lemma bindp_InrD:
  "bindp m f h = (Inr y, h') \<Longrightarrow> \<exists>x h1. m h = (Inr x, h1) \<and> f x h1 = (Inr y, h')"
  by (auto simp: bindp_def split: prod.splits sum.splits)

lemma ext_InrD: "ext env c h = (Inr u, h') \<Longrightarrow> raises env h c = None \<and> h' = h @ [c]"
  by (auto simp: ext_def split: option.splits)

text \<open>A keyword merge that succeeds appends, and the two key sets were disjoint.\<close>

lemma kw_merge_append: "kw_merge kw rest = Inr r \<Longrightarrow> r = kw @ rest"
  by (induction kw rest rule: kw_merge.induct) (auto split: if_splits)

lemma kw_merge_disjoint: "kw_merge kw rest = Inr r \<Longrightarrow> fst ` set kw \<inter> fst ` set rest = {}"
  by (induction kw rest rule: kw_merge.induct) (auto split: if_splits)

text \<open>A part of the program that makes no call satisfying \<open>P\<close> leaves the \<open>P\<close>-calls of the trace as they were.\<close>

lemma filter_ext: "\<not> P c \<Longrightarrow> filter P (snd (ext env c h)) = filter P h"
  by (simp add: ext_def)

lemma filter_returnp: "filter P (snd (returnp x h)) = filter P h"
  by (simp add: returnp_def)

lemma filter_liftp: "filter P (snd (liftp r h)) = filter P h"
  by (simp add: liftp_def)

lemma filter_bindp:
  assumes "\<And>h. filter P (snd (m h)) = filter P h"
      and "\<And>x h. filter P (snd (f x h)) = filter P h"
  shows "filter P (snd (bindp m f h)) = filter P h"
proof (cases "m h")
  case (Pair r h1)
  then show ?thesis
    using assms(1) [of h] assms(2) by (cases r) (simp_all add: bindp_def)
qed

lemma init_engine_no_cleanup:
  "filter is_cleanup (snd (init_engine env opts h)) = filter is_cleanup h"
  unfolding init_engine_def storage_create_def
  by (intro filter_bindp filter_ext filter_returnp) simp_all

lemma init_no_cleanup:
  "filter is_cleanup (snd (init env host port opts h)) = filter is_cleanup h"
  unfolding init_def engine_kwargs_def get_upstream_proxy_args_def Let_def
  by (intro filter_bindp filter_ext filter_returnp filter_liftp init_engine_no_cleanup) simp_all

text \<open>When lines 27 to 48 complete, they have made exactly these twelve calls.\<close>

lemma init_engine_InrD:
  assumes "init_engine env opts h = (Inr st, h1)"
  shows "st = \<lparr> home_dir = home_dir_of env (get_storage_args opts) \<rparr> \<and>
     h1 = h @ [StorageCreate (get_storage_args opts),
          ExtractCertAndKey (home_dir_of env (get_storage_args opts)),
          NewRequestModifier, NewEventLoop, SetEventLoop, NewOptions, NewMaster,
          DefaultAddons, AddonsAdd DefaultAddonList, AddonsAdd SendToLogger,
          NewInterceptRequestHandler, AddonsAdd InterceptRequestHandler]"
  using assms unfolding init_engine_def storage_create_def
  by (auto dest!: bindp_InrD ext_InrD simp: returnp_def)

lemma init_engine_quiet:
  assumes "\<And>t c. raises env t c = None"
  shows "init_engine env opts h =
    (Inr \<lparr> home_dir = home_dir_of env (get_storage_args opts) \<rparr>,
     h @ [StorageCreate (get_storage_args opts),
          ExtractCertAndKey (home_dir_of env (get_storage_args opts)),
          NewRequestModifier, NewEventLoop, SetEventLoop, NewOptions, NewMaster,
          DefaultAddons, AddonsAdd DefaultAddonList, AddonsAdd SendToLogger,
          NewInterceptRequestHandler, AddonsAdd InterceptRequestHandler])"
  by (simp add: init_engine_def storage_create_def bindp_def ext_def returnp_def assms)

text \<open>A successful construction has evaluated the keyword arguments of lines 50 to 60.\<close>

lemma init_engine_kwargs:
  assumes "fst (init env host port opts h) = Inr p"
  shows "\<exists>st h1 h2. engine_kwargs env host port opts st h1 = (Inr (master_options p), h2)"
proof -
  obtain h' where "init env host port opts h = (Inr p, h')"
    using assms by (cases "init env host port opts h") simp
  then show ?thesis
    unfolding init_def by (fastforce dest!: bindp_InrD simp: returnp_def)
qed

section \<open>TLS verification (claim C1)\<close>

text \<open>
  Whatever the configuration, a constructed orchestrator has given the engine, as its
  \<^verbatim>\<open>ssl_insecure\<close> option, the value of \<^verbatim>\<open>verify_ssl\<close> as it stands (\<^verbatim>\<open>True\<close> when the
  key is absent): line 54 does not negate it.
\<close>

lemma ssl_insecure_option:
  assumes "fst (init env host port opts h) = Inr p"
  shows "map_of (master_options p) ''ssl_insecure'' =
           Some (dict_get opts ''verify_ssl'' (PyBool True))"
proof -
  obtain st h1 h2 where
    "engine_kwargs env host port opts st h1 = (Inr (master_options p), h2)"
    using init_engine_kwargs [OF assms] by blast
  then show ?thesis
    unfolding engine_kwargs_def Let_def
    by (auto dest!: bindp_InrD kw_merge_append simp: liftp_def DEFAULT_SSL_INSECURE_def)
qed

text \<open>
  Claim C1: the \<^verbatim>\<open>verify_ssl\<close> option enables or disables upstream TLS verification;
  when it is true the engine verifies upstream certificates, when it is false or absent
  verification is disabled.

  The code does the opposite for both explicit values. With \<^verbatim>\<open>verify_ssl\<close> set to
  \<^verbatim>\<open>True\<close> the engine receives \<^verbatim>\<open>ssl_insecure = True\<close> and does not verify; with
  \<^verbatim>\<open>verify_ssl\<close> set to \<^verbatim>\<open>False\<close> it receives \<^verbatim>\<open>ssl_insecure = False\<close> and verifies.
\<close>

theorem verify_ssl_passed_as_ssl_insecure:
  "(\<exists>p. fst (init (quiet_env no_proxy_config) (PyStr ''127.0.0.1'') (PyInt 0)
              [(''verify_ssl'', PyBool True)] []) = Inr p \<and>
        map_of (master_options p) ''ssl_insecure'' = Some (PyBool True) \<and>
        \<not> upstream_tls_verified (master_options p)) \<and>
   (\<exists>p. fst (init (quiet_env no_proxy_config) (PyStr ''127.0.0.1'') (PyInt 0)
              [(''verify_ssl'', PyBool False)] []) = Inr p \<and>
        map_of (master_options p) ''ssl_insecure'' = Some (PyBool False) \<and>
        upstream_tls_verified (master_options p))"
  by (simp add: eval_defs upstream_tls_verified_def)

section \<open>Conflicting upstream proxies (claim C2)\<close>

text \<open>
  Claim C2: for every pair of HTTP and HTTPS upstream-proxy descriptors whose
  \<^verbatim>\<open>hostport\<close> values differ, construction fails synchronously with a configuration
  error, and no orchestrator is returned.

  Whatever the collaborators do, \<^verbatim>\<open>__init__\<close> ends in an exception and returns no
  object; when no collaborator raises, the exception is the \<^verbatim>\<open>ValueError\<close> of line 101.
\<close>

theorem conflicting_upstream_fails:
  assumes "http (upstream_proxy env opts) = Some hp"
      and "https (upstream_proxy env opts) = Some sp"
      and "hostport hp \<noteq> hostport sp"
  shows "(\<exists>e h'. init env host port opts h = (Inl e, h')) \<and>
         ((\<forall>t c. raises env t c = None) \<longrightarrow>
            fst (init env host port opts h) =
              Inl (ValueError ''Different settings for http and https proxy servers not supported''))"
proof
  have up: "upstream_proxy_args (upstream_proxy env opts) =
      Inl (ValueError ''Different settings for http and https proxy servers not supported'')"
    using assms by (simp add: upstream_proxy_args_def resolve_conf_def)
  have kw: "\<exists>e h'. engine_kwargs env host port opts st h1 = (Inl e, h')" for st h1
    by (auto simp: engine_kwargs_def get_upstream_proxy_args_def bindp_def liftp_def ext_def up
        split: option.splits)
  show "\<exists>e h'. init env host port opts h = (Inl e, h')"
  proof (cases "init_engine env opts h")
    case (Pair r h1)
    show ?thesis
    proof (cases r)
      case (Inl e)
      with Pair show ?thesis by (simp add: init_def bindp_def)
    next
      case (Inr st)
      from kw [of st h1] obtain e h' where "engine_kwargs env host port opts st h1 = (Inl e, h')"
        by blast
      with Pair Inr show ?thesis by (simp add: init_def bindp_def)
    qed
  qed
  show "(\<forall>t c. raises env t c = None) \<longrightarrow>
            fst (init env host port opts h) =
              Inl (ValueError ''Different settings for http and https proxy servers not supported'')"
  proof
    assume "\<forall>t c. raises env t c = None"
    then show "fst (init env host port opts h) =
              Inl (ValueError ''Different settings for http and https proxy servers not supported'')"
      by (simp add: init_def init_engine_quiet engine_kwargs_def get_upstream_proxy_args_def
          bindp_def liftp_def ext_def up)
  qed
qed

theorem conflicting_upstream_fails_witness:
  "http (upstream_proxy (quiet_env conflict_config) []) =
     Some \<lparr> scheme = Some ''http'', username = Some ''u'', password = Some ''p'',
            hostport = Some ''proxy.local:8080'' \<rparr> \<and>
   https (upstream_proxy (quiet_env conflict_config) []) =
     Some \<lparr> scheme = Some ''https'', username = Some ''u'', password = Some ''p'',
            hostport = Some ''proxy.local:9090'' \<rparr> \<and>
   Some ''proxy.local:8080'' \<noteq> Some ''proxy.local:9090'' \<and>
   (\<exists>e h'. init (quiet_env conflict_config) (PyStr ''127.0.0.1'') (PyInt 0) [] [] = (Inl e, h')) \<and>
   fst (init (quiet_env conflict_config) (PyStr ''127.0.0.1'') (PyInt 0) [] []) =
     Inl (ValueError ''Different settings for http and https proxy servers not supported'')"
  using conflicting_upstream_fails [of "quiet_env conflict_config" "[]"
      "\<lparr> scheme = Some ''http'', username = Some ''u'', password = Some ''p'',
         hostport = Some ''proxy.local:8080'' \<rparr>"
      "\<lparr> scheme = Some ''https'', username = Some ''u'', password = Some ''p'',
         hostport = Some ''proxy.local:9090'' \<rparr>"
      "PyStr ''127.0.0.1''" "PyInt 0" "[]"]
  by (simp add: quiet_env_def conflict_config_def)

section \<open>Storage after a failed construction (claim C3)\<close>

text \<open>
  Claim C3, as the code has it: construction never invokes \<^verbatim>\<open>cleanup()\<close> on the storage
  handle, on any path. In particular, when construction fails after the storage handle
  has been created (certificate extraction raises, or the upstream proxies conflict),
  the error propagates with the handle not cleaned up: \<^verbatim>\<open>__init__\<close> has no
  \<^verbatim>\<open>try\<close> around its steps.
\<close>

theorem construction_never_cleans_up:
  "cleanups (snd (init env host port opts h)) = cleanups h"
  by (simp add: cleanups_def init_no_cleanup)

text \<open>
  The claim as stated asks for a \<^verbatim>\<open>cleanup()\<close> call before the error propagates. When
  certificate extraction raises, the storage has been created, the error comes out, and
  the trace holds no \<^verbatim>\<open>cleanup()\<close>.
\<close>

theorem cert_failure_no_cleanup_counterexample:
  "init cert_failure_env (PyStr ''127.0.0.1'') (PyInt 0) [] [] =
     (Inl (Raised ''OSError''),
      [StorageCreate \<lparr> memory_only = False, base_dir = PyNone, maxsize = PyNone \<rparr>,
       ExtractCertAndKey ''/tmp/sw'']) \<and>
   cleanups (snd (init cert_failure_env (PyStr ''127.0.0.1'') (PyInt 0) [] [])) = 0"
  by (simp add: eval_defs cert_failure_env_def cleanups_def)

section \<open>Shutting down twice (claim C4)\<close>

text \<open>
  Claim C4, as the code has it: each call of \<^verbatim>\<open>shutdown()\<close> invokes the engine's
  shutdown and then \<^verbatim>\<open>cleanup()\<close> on the storage handle, with no guard against a
  repeated call. Two calls in sequence that both return have made exactly these four
  calls, so \<^verbatim>\<open>cleanup()\<close> has been invoked twice; and the two calls do return when no
  collaborator raises.
\<close>

theorem shutdown_twice_cleans_up_twice:
  "(shutdown_twice env self h = (Inr (), h') \<longrightarrow>
      h' = h @ [MasterShutdown, StorageCleanup (storage self),
                MasterShutdown, StorageCleanup (storage self)] \<and>
      cleanups h' = cleanups h + 2) \<and>
   ((\<forall>t c. raises env t c = None) \<longrightarrow> fst (shutdown_twice env self h) = Inr ())"
proof (intro conjI impI)
  assume "shutdown_twice env self h = (Inr (), h')"
  then show t: "h' = h @ [MasterShutdown, StorageCleanup (storage self),
                MasterShutdown, StorageCleanup (storage self)]"
    unfolding shutdown_twice_def shutdown_def
    by (auto dest!: bindp_InrD ext_InrD)
  show "cleanups h' = cleanups h + 2"
    by (simp add: t cleanups_def)
next
  assume "\<forall>t c. raises env t c = None"
  then show "fst (shutdown_twice env self h) = Inr ()"
    by (simp add: shutdown_twice_def shutdown_def bindp_def ext_def)
qed

theorem shutdown_twice_cleans_up_twice_witness:
  "shutdown_twice (quiet_env no_proxy_config)
     \<lparr> options = [], storage = \<lparr> home_dir = ''/var/sw'' \<rparr>, scopes = [],
       request_interceptor = None, response_interceptor = None, master_options = [] \<rparr>
     [NewProxyServer] =
     (Inr (), [NewProxyServer, MasterShutdown, StorageCleanup \<lparr> home_dir = ''/var/sw'' \<rparr>,
               MasterShutdown, StorageCleanup \<lparr> home_dir = ''/var/sw'' \<rparr>]) \<and>
   cleanups [NewProxyServer, MasterShutdown, StorageCleanup \<lparr> home_dir = ''/var/sw'' \<rparr>,
               MasterShutdown, StorageCleanup \<lparr> home_dir = ''/var/sw'' \<rparr>] = 2"
  using shutdown_twice_cleans_up_twice [of "quiet_env no_proxy_config"
     "\<lparr> options = [], storage = \<lparr> home_dir = ''/var/sw'' \<rparr>, scopes = [],
       request_interceptor = None, response_interceptor = None, master_options = [] \<rparr>"
     "[NewProxyServer]"]
  by (simp add: shutdown_twice_def shutdown_def bindp_def ext_def quiet_env_def cleanups_def)

text \<open>
  The claim as stated asks for exactly one \<^verbatim>\<open>cleanup()\<close> over the two calls. With
  collaborators that never raise, both calls return and \<^verbatim>\<open>cleanup()\<close> runs twice.
\<close>

theorem shutdown_twice_counterexample:
  "shutdown_twice (quiet_env no_proxy_config)
     \<lparr> options = [], storage = \<lparr> home_dir = ''/tmp/sw'' \<rparr>, scopes = [],
       request_interceptor = None, response_interceptor = None, master_options = [] \<rparr> [] =
     (Inr (), [MasterShutdown, StorageCleanup \<lparr> home_dir = ''/tmp/sw'' \<rparr>,
               MasterShutdown, StorageCleanup \<lparr> home_dir = ''/tmp/sw'' \<rparr>]) \<and>
   cleanups (snd (shutdown_twice (quiet_env no_proxy_config)
     \<lparr> options = [], storage = \<lparr> home_dir = ''/tmp/sw'' \<rparr>, scopes = [],
       request_interceptor = None, response_interceptor = None, master_options = [] \<rparr> [])) \<noteq> 1"
  by (simp add: shutdown_twice_def shutdown_def bindp_def ext_def quiet_env_def cleanups_def)

section \<open>Pass-through options (claim C5)\<close>

text \<open>
  What holds of the pass-through: in a configuration with distinct keys, every option
  whose key starts with \<^verbatim>\<open>mitm_\<close> is, in a constructed orchestrator, an engine option
  under the key without the prefix, with its value unchanged.
\<close>

lemma map_of_fold_update:
  "map_of (fold (\<lambda>(k, v) d. AList.update (f k) v d) xs d) x =
   fold (\<lambda>(k, v) m. m(f k \<mapsto> v)) xs (map_of d) x"
  by (induction xs arbitrary: d) (auto simp: update_conv')

lemma fold_upd_other:
  "x \<notin> f ` fst ` set xs \<Longrightarrow> fold (\<lambda>(k, v) m. m(f k \<mapsto> v)) xs m x = m x"
  by (induction xs arbitrary: m) auto

lemma fold_upd_found:
  "distinct (map fst xs) \<Longrightarrow> inj_on f (fst ` set xs) \<Longrightarrow> (k, v) \<in> set xs \<Longrightarrow>
   fold (\<lambda>(k, v) m. m(f k \<mapsto> v)) xs m (f k) = Some v"
proof (induction xs arbitrary: m)
  case Nil
  then show ?case by simp
next
  case (Cons x xs)
  show ?case
  proof (cases "x = (k, v)")
    case True
    have "f k \<notin> f ` fst ` set xs"
    proof
      assume "f k \<in> f ` fst ` set xs"
      then obtain k' where k': "k' \<in> fst ` set xs" "f k = f k'" by auto
      with Cons.prems(2) True have "k = k'" by (auto simp: inj_on_def)
      with k' Cons.prems(1) True show False by auto
    qed
    then have "fold (\<lambda>(k, v) m. m(f k \<mapsto> v)) xs (m(f k \<mapsto> v)) (f k) = (m(f k \<mapsto> v)) (f k)"
      by (rule fold_upd_other)
    then show ?thesis unfolding True by (simp only: fold_simps prod.case fun_upd_same)
  next
    case False
    with Cons.prems have mem: "(k, v) \<in> set xs" by auto
    have dist: "distinct (map fst xs)" and inj: "inj_on f (fst ` set xs)"
      using Cons.prems by (auto simp: inj_on_def)
    have "fold (\<lambda>(k, v) m. m(f k \<mapsto> v)) xs (m(f (fst x) \<mapsto> snd x)) (f k) = Some v"
      by (rule Cons.IH [OF dist inj mem])
    then show ?thesis by (cases x) (simp only: fold_simps prod.case fst_conv snd_conv)
  qed
qed

lemma drop5_inj: "inj_on (drop 5) {k. startswith k ''mitm_''}"
proof (rule inj_onI)
  fix a b :: string
  assume a: "a \<in> {k. startswith k ''mitm_''}" and b: "b \<in> {k. startswith k ''mitm_''}"
    and d: "drop 5 a = drop 5 b"
  have l: "length ''mitm_'' = 5" by simp
  have "take 5 a = ''mitm_''" "take 5 b = ''mitm_''"
    using a b by (simp_all only: mem_Collect_eq startswith_def l)
  then have "take 5 a = take 5 b" by simp
  with d show "a = b" by (metis append_take_drop_id)
qed

lemma passthrough_lookup:
  assumes "distinct (map fst opts)" and "(k, v) \<in> set opts" and "startswith k ''mitm_''"
  shows "map_of (passthrough opts) (drop 5 k) = Some v"
proof -
  let ?xs = "filter (\<lambda>(k, v). startswith k ''mitm_'') opts"
  have d: "distinct (map fst ?xs)" using assms(1) by (simp add: distinct_map_filter)
  have "fst ` set ?xs \<subseteq> {k. startswith k ''mitm_''}" by auto
  then have i: "inj_on (drop 5) (fst ` set ?xs)" by (rule inj_on_subset [OF drop5_inj])
  have m: "(k, v) \<in> set ?xs" using assms(2,3) by simp
  show ?thesis
    unfolding passthrough_def map_of_fold_update
    by (rule fold_upd_found [OF d i m])
qed

lemma passthrough_forwarded:
  assumes "fst (init env host port opts h) = Inr p"
      and "distinct (map fst opts)" and "(k, v) \<in> set opts" and "startswith k ''mitm_''"
  shows "map_of (master_options p) (drop 5 k) = Some v"
proof -
  obtain st h1 h2 where
    "engine_kwargs env host port opts st h1 = (Inr (master_options p), h2)"
    using init_engine_kwargs [OF assms(1)] by blast
  then obtain kw1 where m: "kw_merge kw1 (passthrough opts) = Inr (master_options p)"
    unfolding engine_kwargs_def Let_def by (auto dest!: bindp_InrD simp: liftp_def)
  have look: "map_of (passthrough opts) (drop 5 k) = Some v"
    using assms(2-4) by (rule passthrough_lookup)
  then have "drop 5 k \<in> fst ` set (passthrough opts)"
    by (metis map_of_SomeD fst_conv image_eqI)
  with kw_merge_disjoint [OF m] have "drop 5 k \<notin> fst ` set kw1" by auto
  then have "map_of kw1 (drop 5 k) = None" by (simp add: map_of_eq_None_iff)
  with look show ?thesis
    using kw_merge_append [OF m] by (simp add: map_add_def)
qed

text \<open>
  Claim C5: every option whose key carries the pass-through prefix is forwarded to the
  engine configuration with the prefix stripped and its value unchanged, and when a
  stripped key collides with one of the orchestrator's own engine-configuration keys the
  pass-through value overrides the default rather than causing a failure.

  The code fails on a collision. The pass-through dictionary is unpacked into the same
  call as the written keywords, so with \<^verbatim>\<open>mitm_listen_port\<close> in the configuration the
  call of line 50 receives \<^verbatim>\<open>listen_port\<close> twice and Python raises \<^verbatim>\<open>TypeError\<close>:
  construction ends there, after the addons were registered and before the engine
  options are updated.
\<close>

theorem passthrough_collision_raises:
  "init (quiet_env no_proxy_config) (PyStr ''127.0.0.1'') (PyInt 0)
     [(''mitm_listen_port'', PyInt 9999)] [] =
     (Inl (TypeError ''listen_port''),
      [StorageCreate \<lparr> memory_only = False, base_dir = PyNone, maxsize = PyNone \<rparr>,
       ExtractCertAndKey ''/tmp/sw'', NewRequestModifier, NewEventLoop, SetEventLoop,
       NewOptions, NewMaster, DefaultAddons, AddonsAdd DefaultAddonList,
       AddonsAdd SendToLogger, NewInterceptRequestHandler,
       AddonsAdd InterceptRequestHandler,
       GetUpstreamProxy [(''mitm_listen_port'', PyInt 9999)]])"
  by (simp add: eval_defs)

section \<open>Addon registration and the configuration error (claim C6)\<close>

text \<open>
  Claim C6, as the code has it: the addons are registered (lines 46 to 48) before the
  upstream proxies are resolved (line 57). If construction fails with the configuration
  error of conflicting upstream targets, then the default addons, the log bridge and the
  interception handler have all been registered, in that order, when the error is
  raised; what has not happened is the update of the engine options and the creation of
  the proxy server.
\<close>

theorem addons_registered_before_conflict_error:
  assumes "http (upstream_proxy env opts) = Some hp"
      and "https (upstream_proxy env opts) = Some sp"
      and "hostport hp \<noteq> hostport sp"
      and "fst (init_engine env opts h) = Inr st"
      and "raises env (snd (init_engine env opts h)) (GetUpstreamProxy opts) = None"
  shows "init env host port opts h =
     (Inl (ValueError ''Different settings for http and https proxy servers not supported''),
      h @ [StorageCreate (get_storage_args opts),
           ExtractCertAndKey (home_dir_of env (get_storage_args opts)),
           NewRequestModifier, NewEventLoop, SetEventLoop, NewOptions, NewMaster,
           DefaultAddons, AddonsAdd DefaultAddonList, AddonsAdd SendToLogger,
           NewInterceptRequestHandler, AddonsAdd InterceptRequestHandler,
           GetUpstreamProxy opts])"
proof -
  obtain h1 where ie: "init_engine env opts h = (Inr st, h1)"
    using assms(4) by (cases "init_engine env opts h") simp
  note tr = init_engine_InrD [OF ie]
  have up: "upstream_proxy_args (upstream_proxy env opts) =
      Inl (ValueError ''Different settings for http and https proxy servers not supported'')"
    using assms(1-3) by (simp add: upstream_proxy_args_def resolve_conf_def)
  have "raises env h1 (GetUpstreamProxy opts) = None"
    using assms(5) ie by simp
  then have "engine_kwargs env host port opts st h1 =
      (Inl (ValueError ''Different settings for http and https proxy servers not supported''),
       h1 @ [GetUpstreamProxy opts])"
    by (simp add: engine_kwargs_def get_upstream_proxy_args_def bindp_def liftp_def ext_def up)
  then show ?thesis
    using ie tr by (simp add: init_def bindp_def)
qed

theorem addons_registered_before_conflict_error_witness:
  "http (upstream_proxy (quiet_env conflict_config) []) =
     Some \<lparr> scheme = Some ''http'', username = Some ''u'', password = Some ''p'',
            hostport = Some ''proxy.local:8080'' \<rparr> \<and>
   https (upstream_proxy (quiet_env conflict_config) []) =
     Some \<lparr> scheme = Some ''https'', username = Some ''u'', password = Some ''p'',
            hostport = Some ''proxy.local:9090'' \<rparr> \<and>
   fst (init_engine (quiet_env conflict_config) [] []) = Inr \<lparr> home_dir = ''/tmp/sw'' \<rparr> \<and>
   raises (quiet_env conflict_config) (snd (init_engine (quiet_env conflict_config) [] []))
     (GetUpstreamProxy []) = None \<and>
   init (quiet_env conflict_config) (PyStr ''localhost'') (PyInt 8080) [] [] =
     (Inl (ValueError ''Different settings for http and https proxy servers not supported''),
      [StorageCreate \<lparr> memory_only = False, base_dir = PyNone, maxsize = PyNone \<rparr>,
       ExtractCertAndKey ''/tmp/sw'', NewRequestModifier, NewEventLoop, SetEventLoop,
       NewOptions, NewMaster, DefaultAddons, AddonsAdd DefaultAddonList,
       AddonsAdd SendToLogger, NewInterceptRequestHandler,
       AddonsAdd InterceptRequestHandler, GetUpstreamProxy []])"
  using addons_registered_before_conflict_error [of "quiet_env conflict_config" "[]"
      "\<lparr> scheme = Some ''http'', username = Some ''u'', password = Some ''p'',
         hostport = Some ''proxy.local:8080'' \<rparr>"
      "\<lparr> scheme = Some ''https'', username = Some ''u'', password = Some ''p'',
         hostport = Some ''proxy.local:9090'' \<rparr>"
      "[]" "\<lparr> home_dir = ''/tmp/sw'' \<rparr>" "PyStr ''localhost''" "PyInt 8080"]
  by (simp add: quiet_env_def conflict_config_def init_engine_def storage_create_def bindp_def
      ext_def returnp_def get_storage_args_def dict_get_def)

text \<open>
  The claim as stated says that no addon has been registered when the error is raised.
  In the spec's scenario (ports 8080 and 9090) the error is raised with all three
  registrations in the trace.
\<close>

theorem conflict_after_addons_counterexample:
  "init (quiet_env conflict_config) (PyStr ''127.0.0.1'') (PyInt 0) [] [] =
     (Inl (ValueError ''Different settings for http and https proxy servers not supported''),
      [StorageCreate \<lparr> memory_only = False, base_dir = PyNone, maxsize = PyNone \<rparr>,
       ExtractCertAndKey ''/tmp/sw'', NewRequestModifier, NewEventLoop, SetEventLoop,
       NewOptions, NewMaster, DefaultAddons, AddonsAdd DefaultAddonList,
       AddonsAdd SendToLogger, NewInterceptRequestHandler,
       AddonsAdd InterceptRequestHandler, GetUpstreamProxy []]) \<and>
   AddonsAdd DefaultAddonList \<in>
     set (snd (init (quiet_env conflict_config) (PyStr ''127.0.0.1'') (PyInt 0) [] [])) \<and>
   AddonsAdd SendToLogger \<in>
     set (snd (init (quiet_env conflict_config) (PyStr ''127.0.0.1'') (PyInt 0) [] [])) \<and>
   AddonsAdd InterceptRequestHandler \<in>
     set (snd (init (quiet_env conflict_config) (PyStr ''127.0.0.1'') (PyInt 0) [] []))"
  by (simp add: eval_defs)

section \<open>Both descriptors with the same host and port (claim C7)\<close>

text \<open>
  Claim C7, as the code has it: for every pair of HTTP and HTTPS upstream descriptors
  with equal \<^verbatim>\<open>hostport\<close>, resolution succeeds; the mode string is built from the
  HTTPS descriptor's scheme and host:port, and the upstream credentials are those of the
  HTTPS descriptor (\<^verbatim>\<open>username:password\<close> when its user name is truthy, no
  authentication field otherwise). The custom authorization and the no-proxy list do not
  belong to either descriptor: they are entries of the proxy configuration shared by both
  schemes, and each is passed on when it is truthy.
\<close>

theorem equal_hostport_uses_https:
  assumes "http pc = Some hp" and "https pc = Some sp" and "hostport hp = hostport sp"
  shows "\<exists>args. upstream_proxy_args pc = Inr args \<and>
     map_of args ''mode'' =
       Some (PyStr (''upstream:'' @ fmt (scheme sp) @ ''://'' @ fmt (hostport sp))) \<and>
     map_of args ''upstream_auth'' =
       (if truthy_str (username sp)
        then Some (PyStr (fmt (username sp) @ '':'' @ fmt (password sp))) else None) \<and>
     map_of args ''upstream_custom_auth'' =
       (if truthy (custom_authorization pc) then Some (custom_authorization pc) else None) \<and>
     map_of args ''no_proxy'' =
       (if truthy (no_proxy pc) then Some (no_proxy pc) else None)"
  using assms
  by (simp add: upstream_proxy_args_def resolve_conf_def proxy_args_def Let_def)

theorem equal_hostport_uses_https_witness:
  "http matching_config =
     Some \<lparr> scheme = Some ''http'', username = Some ''bob'', password = Some ''pw'',
            hostport = Some ''proxy.local:8080'' \<rparr> \<and>
   https matching_config =
     Some \<lparr> scheme = Some ''https'', username = Some ''alice'', password = Some ''s3cret'',
            hostport = Some ''proxy.local:8080'' \<rparr> \<and>
   (\<exists>args. upstream_proxy_args matching_config = Inr args \<and>
      map_of args ''mode'' = Some (PyStr ''upstream:https://proxy.local:8080'') \<and>
      map_of args ''upstream_auth'' = Some (PyStr ''alice:s3cret'') \<and>
      map_of args ''upstream_custom_auth'' = Some (PyStr ''Bearer abc'') \<and>
      map_of args ''no_proxy'' = Some (PyList [PyStr ''localhost'']))"
  using equal_hostport_uses_https [of matching_config
      "\<lparr> scheme = Some ''http'', username = Some ''bob'', password = Some ''pw'',
         hostport = Some ''proxy.local:8080'' \<rparr>"
      "\<lparr> scheme = Some ''https'', username = Some ''alice'', password = Some ''s3cret'',
         hostport = Some ''proxy.local:8080'' \<rparr>"]
  by (simp add: matching_config_def)

text \<open>
  The claim as stated takes the extra fields from the HTTPS descriptor. Two proxy
  configurations with the same HTTP and the same HTTPS descriptor, which differ only in
  the shared \<^verbatim>\<open>custom_authorization\<close> and \<^verbatim>\<open>no_proxy\<close> entries, resolve to different
  extra fields: the descriptor does not determine them.
\<close>

theorem extras_not_from_descriptor_counterexample:
  "https matching_config =
     https (matching_config \<lparr> custom_authorization := PyNone, no_proxy := PyNone \<rparr>) \<and>
   http matching_config =
     http (matching_config \<lparr> custom_authorization := PyNone, no_proxy := PyNone \<rparr>) \<and>
   upstream_proxy_args matching_config =
     Inr [(''mode'', PyStr ''upstream:https://proxy.local:8080''),
          (''upstream_auth'', PyStr ''alice:s3cret''),
          (''upstream_custom_auth'', PyStr ''Bearer abc''),
          (''no_proxy'', PyList [PyStr ''localhost''])] \<and>
   upstream_proxy_args (matching_config \<lparr> custom_authorization := PyNone, no_proxy := PyNone \<rparr>) =
     Inr [(''mode'', PyStr ''upstream:https://proxy.local:8080''),
          (''upstream_auth'', PyStr ''alice:s3cret'')]"
  by (simp add: upstream_proxy_args_def resolve_conf_def proxy_args_def matching_config_def)

section \<open>One descriptor or none (claim C8)\<close>

text \<open>
  At the level of the engine options: when neither descriptor is present, a constructed
  orchestrator has given the engine the six written keywords followed by the pass-through
  options, and nothing from the resolver.
\<close>

lemma direct_mode_engine_options:
  assumes "fst (init env host port opts h) = Inr p"
      and "http (upstream_proxy env opts) = None"
      and "https (upstream_proxy env opts) = None"
  shows "master_options p =
           [(''confdir'', PyStr (home_dir (storage p))),
            (''listen_host'', host),
            (''listen_port'', port),
            (''ssl_insecure'', dict_get opts ''verify_ssl'' (PyBool True)),
            (''stream_websockets'', PyBool True),
            (''suppress_connection_errors'',
               dict_get opts ''suppress_connection_errors'' (PyBool True))]
           @ passthrough opts"
proof -
  obtain h' where "init env host port opts h = (Inr p, h')"
    using assms(1) by (cases "init env host port opts h") simp
  then obtain h1 h2 where
    kw: "engine_kwargs env host port opts (storage p) h1 = (Inr (master_options p), h2)"
    unfolding init_def by (fastforce dest!: bindp_InrD simp: returnp_def)
  have up: "upstream_proxy_args (upstream_proxy env opts) = Inr []"
    using assms(2,3) by (simp add: upstream_proxy_args_def resolve_conf_def proxy_args_def)
  show ?thesis
    using kw unfolding engine_kwargs_def Let_def get_upstream_proxy_args_def
    by (auto dest!: bindp_InrD kw_merge_append
        simp: liftp_def up DEFAULT_SSL_INSECURE_def DEFAULT_STREAM_WEBSOCKETS_def
          DEFAULT_SUPPRESS_CONNECTION_ERRORS_def)
qed

text \<open>
  Claim C8: if exactly one of the HTTP and HTTPS upstream descriptors is present, the
  resolved upstream configuration is built from that descriptor (its scheme and host:port
  in the mode string, its credentials in the authentication field); if neither is
  present, the resolved configuration has no upstream field at all.
\<close>

theorem single_or_no_descriptor:
  "((http pc = Some d \<and> https pc = None) \<or> (http pc = None \<and> https pc = Some d) \<longrightarrow>
      upstream_proxy_args pc = Inr (proxy_args pc (Some d)) \<and>
      map_of (proxy_args pc (Some d)) ''mode'' =
        Some (PyStr (''upstream:'' @ fmt (scheme d) @ ''://'' @ fmt (hostport d))) \<and>
      map_of (proxy_args pc (Some d)) ''upstream_auth'' =
        (if truthy_str (username d)
         then Some (PyStr (fmt (username d) @ '':'' @ fmt (password d))) else None)) \<and>
   (http pc = None \<and> https pc = None \<longrightarrow> upstream_proxy_args pc = Inr [])"
  by (auto simp: upstream_proxy_args_def resolve_conf_def proxy_args_def Let_def)

theorem single_or_no_descriptor_witness:
  "http http_only_config =
     Some \<lparr> scheme = Some ''http'', username = Some '''', password = Some ''secret'',
            hostport = Some ''proxy.local:3128'' \<rparr> \<and>
   https http_only_config = None \<and>
   upstream_proxy_args http_only_config =
     Inr [(''mode'', PyStr ''upstream:http://proxy.local:3128'')] \<and>
   http no_proxy_config = None \<and> https no_proxy_config = None \<and>
   upstream_proxy_args no_proxy_config = Inr []"
  using single_or_no_descriptor [of http_only_config
      "\<lparr> scheme = Some ''http'', username = Some '''', password = Some ''secret'',
         hostport = Some ''proxy.local:3128'' \<rparr>"]
    single_or_no_descriptor [of no_proxy_config]
  by (simp add: http_only_config_def no_proxy_config_def proxy_args_def)

section \<open>The scope list after construction (claim C9)\<close>

text \<open>
  Claim C9: after construction the scope list is the empty, capture-everything list,
  unless the configuration sets \<^verbatim>\<open>disable_capture\<close> to true, in which case the scope
  list is the single never-matching pattern \<^verbatim>\<open>$^\<close>. The code decides by the truthiness
  of \<^verbatim>\<open>options.get('disable_capture', False)\<close>.
\<close>

theorem scopes_after_construction:
  assumes "fst (init env host port opts h) = Inr p"
  shows "scopes p = (if truthy (dict_get opts ''disable_capture'' (PyBool False))
                     then [''$^''] else []) \<and>
         (map_of opts ''disable_capture'' = Some (PyBool True) \<longrightarrow> scopes p = [''$^'']) \<and>
         (map_of opts ''disable_capture'' = None \<or>
          map_of opts ''disable_capture'' = Some (PyBool False) \<longrightarrow> scopes p = [])"
proof -
  obtain h' where "init env host port opts h = (Inr p, h')"
    using assms by (cases "init env host port opts h") simp
  then have "scopes p = (if truthy (dict_get opts ''disable_capture'' (PyBool False))
                     then [''$^''] else [])"
    unfolding init_def by (auto dest!: bindp_InrD simp: returnp_def)
  then show ?thesis
    by (auto simp: dict_get_def)
qed

theorem scopes_after_construction_witness:
  "fst (init (quiet_env no_proxy_config) (PyStr ''127.0.0.1'') (PyInt 0)
          [(''disable_capture'', PyBool True)] []) =
     Inr \<lparr> options = [(''disable_capture'', PyBool True)],
           storage = \<lparr> home_dir = ''/tmp/sw'' \<rparr>,
           scopes = [''$^''],
           request_interceptor = None, response_interceptor = None,
           master_options =
             [(''confdir'', PyStr ''/tmp/sw''), (''listen_host'', PyStr ''127.0.0.1''),
              (''listen_port'', PyInt 0), (''ssl_insecure'', PyBool True),
              (''stream_websockets'', PyBool True),
              (''suppress_connection_errors'', PyBool True)] \<rparr> \<and>
   fst (init (quiet_env no_proxy_config) (PyStr ''127.0.0.1'') (PyInt 0) [] []) =
     Inr \<lparr> options = [],
           storage = \<lparr> home_dir = ''/tmp/sw'' \<rparr>,
           scopes = [],
           request_interceptor = None, response_interceptor = None,
           master_options =
             [(''confdir'', PyStr ''/tmp/sw''), (''listen_host'', PyStr ''127.0.0.1''),
              (''listen_port'', PyInt 0), (''ssl_insecure'', PyBool True),
              (''stream_websockets'', PyBool True),
              (''suppress_connection_errors'', PyBool True)] \<rparr>"
  using scopes_after_construction [of "quiet_env no_proxy_config" "PyStr ''127.0.0.1''" "PyInt 0"
      "[(''disable_capture'', PyBool True)]" "[]"]
    scopes_after_construction [of "quiet_env no_proxy_config" "PyStr ''127.0.0.1''" "PyInt 0"
      "[]" "[]"]
  by (simp add: eval_defs)

section \<open>An empty user name (claim C10)\<close>

text \<open>
  Claim C10: if the resolved upstream descriptor has the empty string as user name, no
  upstream authentication field is produced and the password is ignored: the user name
  is tested for truthiness, not for being \<^verbatim>\<open>None\<close>.
\<close>

theorem empty_username_no_auth:
  assumes "resolve_conf pc = Inr (Some c)" and "username c = Some []"
  shows "upstream_proxy_args pc = Inr (proxy_args pc (Some c)) \<and>
         map_of (proxy_args pc (Some c)) ''upstream_auth'' = None \<and>
         proxy_args pc (Some (c \<lparr> password := pw \<rparr>)) = proxy_args pc (Some c)"
  using assms
  by (simp add: upstream_proxy_args_def proxy_args_def Let_def)

theorem empty_username_no_auth_witness:
  "resolve_conf http_only_config =
     Inr (Some \<lparr> scheme = Some ''http'', username = Some '''', password = Some ''secret'',
                 hostport = Some ''proxy.local:3128'' \<rparr>) \<and>
   upstream_proxy_args http_only_config =
     Inr [(''mode'', PyStr ''upstream:http://proxy.local:3128'')] \<and>
   map_of [(''mode'', PyStr ''upstream:http://proxy.local:3128'')] ''upstream_auth'' = None \<and>
   proxy_args http_only_config
     (Some \<lparr> scheme = Some ''http'', username = Some '''', password = Some ''other'',
             hostport = Some ''proxy.local:3128'' \<rparr>) =
     [(''mode'', PyStr ''upstream:http://proxy.local:3128'')]"
  using empty_username_no_auth [of http_only_config
      "\<lparr> scheme = Some ''http'', username = Some '''', password = Some ''secret'',
         hostport = Some ''proxy.local:3128'' \<rparr>" "Some ''other''"]
  by (simp add: http_only_config_def resolve_conf_def proxy_args_def)

end
